theory Spec2Isabelle
  imports Main "HOL-Library.Char_ord" "HOL-Library.List_Lexorder"
begin

section \<open>Python values, exceptions and console output\<close>

text \<open>
  The module \<^verbatim>\<open>main.py\<close> is glue around external tools. Its functions are modelled as
  pure functions; what they take from the outside world (the environment, the file
  system, the sub-processes, the \<^verbatim>\<open>json\<close> module, the markup renderer of the console) is
  a parameter. An exception or a call of \<^verbatim>\<open>sys.exit\<close> is the left summand of the result;
  what \<^verbatim>\<open>console.print\<close> has printed is returned as a list, in the order of the calls.
\<close>

datatype py_exc =
    SystemExit int
  | AttributeError
  | TypeError
  | IndexError
  | MarkupError
  | OSError
  | UnicodeDecodeError

text \<open>
  A float is a sign, a magnitude and a binary exponent, an infinity or a NaN; the only
  thing the program asks of a float is whether it is zero.
\<close>

datatype pyfloat = FFinite bool nat int | FInf bool | FNaN

text \<open>
  The values \<^verbatim>\<open>json.loads\<close> returns. A dict is the list of its items in insertion
  order. A dict that Python builds has one item for each key; a lookup in the list takes
  the first item with the key.
\<close>

datatype pyval =
    PNone
  | PBool bool
  | PInt int
  | PFloat pyfloat
  | PStr string
  | PList "pyval list"
  | PDict "(string \<times> pyval) list"

text \<open>Python's truth value of an object (\<^verbatim>\<open>bool(x)\<close>, and what \<^verbatim>\<open>or\<close> tests).\<close>

fun truthy :: "pyval \<Rightarrow> bool" where
  "truthy PNone = False"
| "truthy (PBool b) = b"
| "truthy (PInt i) = (i \<noteq> 0)"
| "truthy (PFloat f) = (case f of FFinite s m e \<Rightarrow> m \<noteq> 0 | FInf s \<Rightarrow> True | FNaN \<Rightarrow> True)"
| "truthy (PStr s) = (s \<noteq> [])"
| "truthy (PList xs) = (xs \<noteq> [])"
| "truthy (PDict kvs) = (kvs \<noteq> [])"

text \<open>The keys of the \<^verbatim>\<open>EMOJI\<close> table; a message starts with the emoji of its key.\<close>

datatype emoji = E_start | E_scan | E_ok | E_missing | E_unused | E_failure | E_info

text \<open>
  What \<^verbatim>\<open>console.print\<close> is called with: an f-string that starts with an emoji, a bare
  string, or \<^verbatim>\<open>Panel.fit(text, title=..., border_style=...)\<close>.
\<close>

datatype console_item =
    Say emoji string
  | Plain string
  | PanelFit string string string

type_synonym 'a io = "console_item list \<times> (py_exc + 'a)"

text \<open>
  The console renders every string it prints as markup, the body of a panel included,
  and raises \<^verbatim>\<open>MarkupError\<close> where a closing tag matches no open tag; the call then prints
  nothing. A tag starts with an opening bracket, so a text without one is printed as it
  is. On which of the other texts the renderer raises is the parameter \<open>tag_error\<close>. The
  messages of the program itself hold balanced tags and fixed text, and are printed.
\<close>

definition markup_error :: "(string \<Rightarrow> bool) \<Rightarrow> string \<Rightarrow> bool" where
  "markup_error tag_error text = (CHR ''['' \<in> set text \<and> tag_error text)"

text \<open>
  \<^verbatim>\<open>console.print(Panel.fit(body, title=..., border_style=...))\<close> for each panel of a
  list, in order, up to the first body on which the renderer raises. A panel is its
  body, its title and its border style; the titles are fixed and hold no bracket.
\<close>

fun print_panels :: "(string \<Rightarrow> bool) \<Rightarrow> (string \<times> string \<times> string) list \<Rightarrow> unit io" where
  "print_panels tag_error [] = ([], Inr ())"
| "print_panels tag_error ((body, title, border_style) # rest) =
     (if markup_error tag_error body then ([], Inl MarkupError)
      else (PanelFit body title border_style # fst (print_panels tag_error rest),
            snd (print_panels tag_error rest)))"

section \<open>Sub-processes (\<^verbatim>\<open>run_command\<close>)\<close>

text \<open>What \<^verbatim>\<open>subprocess.run\<close> returns: a \<^verbatim>\<open>CompletedProcess\<close> with captured text.\<close>

record completed_process =
  returncode :: int
  stdout :: string
  stderr :: string

text \<open>
  What a runner does, in order: it prints to the console and it starts sub-processes,
  each with a command and a working directory.
\<close>

datatype effect = Console console_item | Subprocess "string list" "string option"

type_synonym 'a run = "effect list \<times> (py_exc + 'a)"


text \<open>
  \<^verbatim>\<open>
  def run_command(command, cwd=None):
      result = subprocess.run(command, cwd=str(cwd) if cwd else None,
                              capture_output=True, text=True)
      return result
  \<close>
  The parameter \<open>subprocess_run\<close> is \<^verbatim>\<open>subprocess.run\<close> with these options: the completed
  process, or the exception it raises (the program cannot be started, its output cannot
  be decoded). A \<^verbatim>\<open>Path\<close> object is always true; \<open>str\<close> is its string form.
\<close>

definition run_command ::
  "(string list \<Rightarrow> string option \<Rightarrow> py_exc + completed_process) \<Rightarrow> ('p \<Rightarrow> string)
     \<Rightarrow> string list \<Rightarrow> 'p option \<Rightarrow> completed_process run" where
  "run_command subprocess_run str command cwd =
     (let dir = (case cwd of Some p \<Rightarrow> Some (str p) | None \<Rightarrow> None)
      in ([Subprocess command dir], subprocess_run command dir))"

section \<open>Python string methods\<close>

text \<open>
  A \<open>char\<close> is a code point from U+0000 to U+00FF, and a \<open>string\<close> a Python \<^verbatim>\<open>str\<close> of
  such code points. The predicates below are Python's on that range.
\<close>

text \<open>\<^verbatim>\<open>str.isspace\<close> on one character: TAB, LF, VT, FF, CR, FS, GS, RS, US, space, NEL
  and the no-break space.\<close>

definition py_isspace :: "char \<Rightarrow> bool" where
  "py_isspace c = (of_char c \<in> {9, 10, 11, 12, 13, 28, 29, 30, 31, 32, 133, 160 :: nat})"

text \<open>\<^verbatim>\<open>s.strip()\<close>\<close>

definition py_strip :: "string \<Rightarrow> string" where
  "py_strip s = rev (dropWhile py_isspace (rev (dropWhile py_isspace s)))"

text \<open>\<^verbatim>\<open>s.strip(chars)\<close>\<close>

definition py_strip_chars :: "string \<Rightarrow> string \<Rightarrow> string" where
  "py_strip_chars chars s =
     rev (dropWhile (\<lambda>c. c \<in> set chars) (rev (dropWhile (\<lambda>c. c \<in> set chars) s)))"

text \<open>\<^verbatim>\<open>str.lower\<close>: A to Z, and the capital letters U+00C0 to U+00DE without the
  multiplication sign U+00D7, move up by 32; every other character stays.\<close>

definition lower_char :: "char \<Rightarrow> char" where
  "lower_char c =
     (let n = of_char c :: nat
      in if (65 \<le> n \<and> n \<le> 90) \<or> (192 \<le> n \<and> n \<le> 222 \<and> n \<noteq> 215)
         then char_of (n + 32) else c)"

definition py_lower :: "string \<Rightarrow> string" where
  "py_lower s = map lower_char s"

text \<open>\<^verbatim>\<open>str.isdigit\<close> on one character: 0 to 9 and the superscripts two, three and one.\<close>

definition py_isdigit :: "char \<Rightarrow> bool" where
  "py_isdigit c =
     (let n = of_char c :: nat in (48 \<le> n \<and> n \<le> 57) \<or> n = 178 \<or> n = 179 \<or> n = 185)"

text \<open>\<^verbatim>\<open>s.startswith(p)\<close>, and \<^verbatim>\<open>s.startswith((p1, ..., pn))\<close>\<close>

definition startswith :: "string \<Rightarrow> string \<Rightarrow> bool" where
  "startswith s p = (take (length p) s = p)"

definition startswith_any :: "string \<Rightarrow> string list \<Rightarrow> bool" where
  "startswith_any s ps = list_ex (startswith s) ps"

text \<open>
  \<^verbatim>\<open>s.splitlines()\<close>: a line ends at LF, VT, FF, FS, GS, RS, NEL, at CR, and at CR LF
  taken together; the text after the last line end is a line unless it is empty.
\<close>

definition is_linebreak :: "char \<Rightarrow> bool" where
  "is_linebreak c = (of_char c \<in> {10, 11, 12, 28, 29, 30, 133 :: nat})"

fun splitlines_from :: "string \<Rightarrow> string \<Rightarrow> string list" where
  "splitlines_from cur [] = (if cur = [] then [] else [rev cur])"
| "splitlines_from cur (c # cs) =
     (if c = CHR 0x0D then
        (case cs of
           d # ds \<Rightarrow> if d = CHR 0x0A then rev cur # splitlines_from [] ds
                     else rev cur # splitlines_from [] cs
         | [] \<Rightarrow> rev cur # splitlines_from [] cs)
      else if is_linebreak c then rev cur # splitlines_from [] cs
      else splitlines_from (c # cur) cs)"

definition py_splitlines :: "string \<Rightarrow> string list" where
  "py_splitlines s = splitlines_from [] s"

text \<open>\<^verbatim>\<open>s.split()\<close>: the maximal runs of characters that are not whitespace.\<close>

fun split_from :: "string \<Rightarrow> string \<Rightarrow> string list" where
  "split_from cur [] = (if cur = [] then [] else [rev cur])"
| "split_from cur (c # cs) =
     (if py_isspace c
      then (if cur = [] then split_from [] cs else rev cur # split_from [] cs)
      else split_from (c # cur) cs)"

definition py_split :: "string \<Rightarrow> string list" where
  "py_split s = split_from [] s"

section \<open>The structured parser (\<^verbatim>\<open>parse_deptry_report\<close>)\<close>

text \<open>\<^verbatim>\<open>d.get(k, default)\<close> on a dict.\<close>

definition dict_get :: "(string \<times> pyval) list \<Rightarrow> string \<Rightarrow> pyval \<Rightarrow> pyval" where
  "dict_get kvs k dflt = (case map_of kvs k of None \<Rightarrow> dflt | Some v \<Rightarrow> v)"

text \<open>
  \<^verbatim>\<open>item.get("module") or item.get("name") or str(item)\<close>. Only a dict has \<^verbatim>\<open>get\<close>: on
  any other value the attribute lookup raises. The string form of a dict is its items
  between braces; how Python writes the items is the parameter \<open>repr_items\<close>.
\<close>

fun entry_name :: "((string \<times> pyval) list \<Rightarrow> string) \<Rightarrow> pyval \<Rightarrow> py_exc + pyval" where
  "entry_name repr_items (PDict kvs) =
     Inr (if truthy (dict_get kvs ''module'' PNone) then dict_get kvs ''module'' PNone
          else if truthy (dict_get kvs ''name'' PNone) then dict_get kvs ''name'' PNone
          else PStr (''{'' @ repr_items kvs @ ''}''))"
| "entry_name repr_items PNone = Inl AttributeError"
| "entry_name repr_items (PBool b) = Inl AttributeError"
| "entry_name repr_items (PInt i) = Inl AttributeError"
| "entry_name repr_items (PFloat f) = Inl AttributeError"
| "entry_name repr_items (PStr s) = Inl AttributeError"
| "entry_name repr_items (PList xs) = Inl AttributeError"

text \<open>What a \<^verbatim>\<open>for\<close> clause iterates over: the elements of a list, the characters of a
  string, the keys of a dict; the other values are not iterable.\<close>

fun py_iter :: "pyval \<Rightarrow> py_exc + pyval list" where
  "py_iter (PList xs) = Inr xs"
| "py_iter (PStr s) = Inr (map (\<lambda>c. PStr [c]) s)"
| "py_iter (PDict kvs) = Inr (map (\<lambda>kv. PStr (fst kv)) kvs)"
| "py_iter PNone = Inl TypeError"
| "py_iter (PBool b) = Inl TypeError"
| "py_iter (PInt i) = Inl TypeError"
| "py_iter (PFloat f) = Inl TypeError"

text \<open>The list comprehension \<^verbatim>\<open>[... for item in items]\<close>: one name for each item, in
  order, up to the first item that raises.\<close>

fun entry_names :: "((string \<times> pyval) list \<Rightarrow> string) \<Rightarrow> pyval list \<Rightarrow> py_exc + pyval list" where
  "entry_names repr_items [] = Inr []"
| "entry_names repr_items (item # items) =
     (case entry_name repr_items item of
        Inl e \<Rightarrow> Inl e
      | Inr n \<Rightarrow> (case entry_names repr_items items of
                    Inl e \<Rightarrow> Inl e
                  | Inr ns \<Rightarrow> Inr (n # ns)))"

text \<open>
  Lines 66 to 74, on the value \<^verbatim>\<open>data\<close> that \<^verbatim>\<open>json.loads\<close> returned:
  \<^verbatim>\<open>
    missing = [item.get("module") or item.get("name") or str(item)
               for item in data.get("missing", [])]
    unused = [item.get("module") or item.get("name") or str(item)
              for item in data.get("unused", [])]
    return missing, unused
  \<close>
\<close>

definition deptry_findings ::
  "((string \<times> pyval) list \<Rightarrow> string) \<Rightarrow> pyval \<Rightarrow> py_exc + (pyval list \<times> pyval list)" where
  "deptry_findings repr_items data =
     (case data of
        PDict obj \<Rightarrow>
          (case py_iter (dict_get obj ''missing'' (PList [])) of
             Inl e \<Rightarrow> Inl e
           | Inr ms \<Rightarrow>
               (case entry_names repr_items ms of
                  Inl e \<Rightarrow> Inl e
                | Inr missing \<Rightarrow>
                    (case py_iter (dict_get obj ''unused'' (PList [])) of
                       Inl e \<Rightarrow> Inl e
                     | Inr us \<Rightarrow>
                         (case entry_names repr_items us of
                            Inl e \<Rightarrow> Inl e
                          | Inr unused \<Rightarrow> Inr (missing, unused)))))
      | _ \<Rightarrow> Inl AttributeError)"

text \<open>
  \<^verbatim>\<open>parse_deptry_report(stdout)\<close>. The parameter \<open>loads\<close> is \<^verbatim>\<open>json.loads\<close>: the value
  of the document, or the text of the \<^verbatim>\<open>JSONDecodeError\<close>. In the handler the two calls
  of \<^verbatim>\<open>console.print\<close> come before \<^verbatim>\<open>sys.exit(2)\<close>: the first prints the message with
  the text of the exception, the second the raw output, and each is given a text that
  the renderer may refuse.
\<close>

definition parse_deptry_report ::
  "(string \<Rightarrow> string + pyval) \<Rightarrow> (string \<Rightarrow> bool) \<Rightarrow> ((string \<times> pyval) list \<Rightarrow> string)
     \<Rightarrow> string \<Rightarrow> (pyval list \<times> pyval list) io" where
  "parse_deptry_report loads tag_error repr_items out =
     (if py_strip out = [] then ([], Inr ([], []))
      else (case loads out of
              Inl exc \<Rightarrow>
                let message = ''[bold red]Unable to parse deptry output as JSON:[/bold red] ''
                              @ exc
                in if markup_error tag_error message then ([], Inl MarkupError)
                   else if markup_error tag_error out
                   then ([Say E_failure message], Inl MarkupError)
                   else ([Say E_failure message, Plain out], Inl (SystemExit 2))
            | Inr data \<Rightarrow> ([], deptry_findings repr_items data)))"

text \<open>
  \<^verbatim>\<open>run_deptry(path)\<close>. The panel with the standard error of the analyzer is printed
  before \<^verbatim>\<open>sys.exit\<close>, when the standard error is not empty.
\<close>

definition run_deptry ::
  "(string list \<Rightarrow> string option \<Rightarrow> py_exc + completed_process)
     \<Rightarrow> (string \<Rightarrow> string + pyval) \<Rightarrow> (string \<Rightarrow> bool)
     \<Rightarrow> ((string \<times> pyval) list \<Rightarrow> string) \<Rightarrow> ('p \<Rightarrow> string) \<Rightarrow> 'p
     \<Rightarrow> (pyval list \<times> pyval list) run" where
  "run_deptry subprocess_run loads tag_error repr_items str path =
     (let started = [Console (Say E_scan ''[bold cyan]Running deptry analysis...[/bold cyan]'')];
          ran = run_command subprocess_run str [''deptry'', str path, ''--json''] (Some path)
      in case snd ran of
           Inl e \<Rightarrow> (started @ fst ran, Inl e)
         | Inr result \<Rightarrow>
             if returncode result \<noteq> 0 \<and> returncode result \<noteq> 1
             then
               let failed = started @ fst ran
                     @ [Console (Say E_failure ''[bold red]deptry failed to execute.[/bold red]'')];
                   panels = print_panels tag_error
                              (if stderr result \<noteq> []
                               then [(stderr result, ''deptry stderr'', ''red'')] else [])
               in (case snd panels of
                     Inl e \<Rightarrow> (failed @ map Console (fst panels), Inl e)
                   | Inr u \<Rightarrow>
                       (failed @ map Console (fst panels),
                        Inl (SystemExit
                              (if returncode result \<noteq> 0 then returncode result else 2))))
             else
               let parsed = parse_deptry_report loads tag_error repr_items (stdout result)
               in (started @ fst ran @ map Console (fst parsed), snd parsed))"

text \<open>
  The fresh document of the round trip: the two name lists written back as the arrays
  under \<^verbatim>\<open>missing\<close> and \<^verbatim>\<open>unused\<close>. It is not in the source.
\<close>

definition reserialize_names :: "pyval list \<Rightarrow> pyval list \<Rightarrow> pyval" where
  "reserialize_names missing unused =
     PDict [(''missing'', PList missing), (''unused'', PList unused)]"

section \<open>The line-oriented parser (\<^verbatim>\<open>parse_pip_check_output\<close>)\<close>

definition allowed_chars :: string where
  "allowed_chars = ''abcdefghijklmnopqrstuvwxyzABCDEFGHIJKLMNOPQRSTUVWXYZ0123456789-_.''"

text \<open>
  The body of the loop, for one line: \<open>Inr None\<close> where the iteration ends without
  appending (a \<^verbatim>\<open>continue\<close>, or a candidate with a character that is not allowed),
  \<open>Inr (Some candidate)\<close> where it appends. The index 0 into \<^verbatim>\<open>clean.split()\<close> raises
  when the split is empty. The index 0 into \<^verbatim>\<open>clean\<close> is taken of a string that is not
  empty, after the first test.
\<close>

definition scan_line :: "string \<Rightarrow> py_exc + string option" where
  "scan_line line =
     (let clean = py_strip line
      in if clean = [] then Inr None
         else
           let lowered = py_lower clean
           in if startswith_any lowered
                   [''examining '', ''missing requirements'', ''unused requirements'',
                    ''extra requirements'']
              then Inr None
              else if startswith_any lowered
                   [''configuration'', ''results'', ''to fix'', ''hint:'', ''warning'']
              then Inr None
              else if startswith_any clean [''#'', ''='', ''---''] then Inr None
              else if py_isdigit (hd clean) \<and> CHR '':'' \<in> set clean then Inr None
              else
                let clean = (if startswith_any clean [''- '', ''* ''] then drop 2 clean
                             else clean)
                in (case py_split clean of
                      [] \<Rightarrow> Inl IndexError
                    | tok # toks \<Rightarrow>
                        let candidate = py_strip_chars '','' tok
                        in if candidate = [] then Inr None
                           else if list_all (\<lambda>ch. ch \<in> set allowed_chars) candidate
                           then Inr (Some candidate)
                           else Inr None))"

text \<open>The loop \<^verbatim>\<open>for line in stdout.splitlines()\<close>, with the list \<^verbatim>\<open>modules\<close> it
  appends to.\<close>

fun scan_lines :: "string list \<Rightarrow> string list \<Rightarrow> py_exc + string list" where
  "scan_lines modules [] = Inr modules"
| "scan_lines modules (line # rest) =
     (case scan_line line of
        Inl e \<Rightarrow> Inl e
      | Inr None \<Rightarrow> scan_lines modules rest
      | Inr (Some candidate) \<Rightarrow> scan_lines (modules @ [candidate]) rest)"

text \<open>\<^verbatim>\<open>sorted(set(modules))\<close>: the distinct elements in ascending order; strings compare
  lexicographically by code point.\<close>

definition parse_pip_check_output :: "string \<Rightarrow> py_exc + string list" where
  "parse_pip_check_output out =
     (case scan_lines [] (py_splitlines out) of
        Inl e \<Rightarrow> Inl e
      | Inr modules \<Rightarrow> Inr (sort (remdups modules)))"

section \<open>The requirements-file runner (\<^verbatim>\<open>run_pip_check_reqs\<close>)\<close>

text \<open>
  A path is a value of any type \<open>'p\<close>, with the three operations the runner uses as
  parameters: \<open>exists\<close> for \<^verbatim>\<open>Path.exists\<close> (the state of the file system), \<open>joinpath\<close>
  for the operator \<^verbatim>\<open>/\<close>, \<open>str\<close> for the string form.
\<close>

definition select_requirements_file ::
  "('p \<Rightarrow> bool) \<Rightarrow> ('p \<Rightarrow> string \<Rightarrow> 'p) \<Rightarrow> 'p \<Rightarrow> 'p option" where
  "select_requirements_file exists joinpath path =
     (let candidates = [joinpath path ''requirements.txt'',
                        joinpath path ''requirements-dev.txt'',
                        joinpath path ''requirements.in'']
      in find exists candidates)"

text \<open>
  Lines 136 to 145: the two commands. A \<^verbatim>\<open>Path\<close> object is always true, so
  \<^verbatim>\<open>if requirements\<close> asks whether a file was selected.
\<close>

definition pip_check_commands ::
  "('p \<Rightarrow> bool) \<Rightarrow> ('p \<Rightarrow> string \<Rightarrow> 'p) \<Rightarrow> ('p \<Rightarrow> string) \<Rightarrow> 'p
     \<Rightarrow> string list \<times> string list" where
  "pip_check_commands exists joinpath str path =
     (let requirements = select_requirements_file exists joinpath path;
          command_suffix = (case requirements of
                              Some r \<Rightarrow> [''--requirements-file'', str r]
                            | None \<Rightarrow> []);
          missing_cmd = [''pip-missing-reqs'', str path];
          extra_cmd = [''pip-extra-reqs'', str path]
      in if command_suffix \<noteq> []
         then (missing_cmd @ command_suffix, extra_cmd @ command_suffix)
         else (missing_cmd, extra_cmd))"

text \<open>
  Lines 150 to 154: the dict \<^verbatim>\<open>diagnostics\<close>, as the list of its items in insertion
  order.
\<close>

definition pip_diagnostics ::
  "completed_process \<Rightarrow> completed_process \<Rightarrow> (string \<times> string) list" where
  "pip_diagnostics missing_result extra_result =
     (if stderr missing_result \<noteq> []
      then [(''pip-missing-reqs'', stderr missing_result)] else [])
     @ (if stderr extra_result \<noteq> []
        then [(''pip-extra-reqs'', stderr extra_result)] else [])"

text \<open>
  Lines 156 to 183: what the runner does with the two completed processes. After an
  unexpected status the panels of the diagnostics are printed before \<^verbatim>\<open>sys.exit\<close>;
  \<^verbatim>\<open>a or b or 2\<close> on integers is the first of \<open>a\<close>, \<open>b\<close> that is not 0, and 2 when both
  are. Otherwise the panels of the two standard outputs that are not blank are printed,
  and then the outputs are parsed.
\<close>

definition pip_check_report ::
  "(string \<Rightarrow> bool) \<Rightarrow> completed_process \<Rightarrow> completed_process
     \<Rightarrow> (string list \<times> string list \<times> (string \<times> string) list) io" where
  "pip_check_report tag_error missing_result extra_result =
     (let diagnostics = pip_diagnostics missing_result extra_result
      in if returncode missing_result \<notin> {0, 1} \<or> returncode extra_result \<notin> {0, 1}
         then
           let panels = print_panels tag_error
                          (map (\<lambda>d. (snd d, fst d @ '' stderr'', ''red'')) diagnostics)
           in (Say E_failure
                 ''[bold red]pip-check-reqs commands exited with an unexpected status.[/bold red]''
                 # fst panels,
               case snd panels of
                 Inl e \<Rightarrow> Inl e
               | Inr u \<Rightarrow>
                   Inl (SystemExit
                         (if returncode missing_result \<noteq> 0 then returncode missing_result
                          else if returncode extra_result \<noteq> 0 then returncode extra_result
                          else 2)))
         else
           let panels = print_panels tag_error
                          ((if py_strip (stdout missing_result) \<noteq> []
                            then [(py_strip (stdout missing_result), ''pip-missing-reqs'', ''cyan'')]
                            else [])
                           @ (if py_strip (stdout extra_result) \<noteq> []
                              then [(py_strip (stdout extra_result), ''pip-extra-reqs'', ''cyan'')]
                              else []))
           in (fst panels,
               case snd panels of
                 Inl e \<Rightarrow> Inl e
               | Inr u \<Rightarrow>
                   (case parse_pip_check_output (stdout missing_result) of
                      Inl e \<Rightarrow> Inl e
                    | Inr missing \<Rightarrow>
                        (case parse_pip_check_output (stdout extra_result) of
                           Inl e \<Rightarrow> Inl e
                         | Inr unused \<Rightarrow> Inr (missing, unused, diagnostics)))))"

text \<open>
  \<^verbatim>\<open>run_pip_check_reqs(path)\<close>: the message, the two commands, the missing-check and
  then the extra-check, each in the target directory, and the report on their results.
  An exception of \<^verbatim>\<open>subprocess.run\<close> ends the runner where it is raised.
\<close>

definition run_pip_check_reqs ::
  "('p \<Rightarrow> bool) \<Rightarrow> ('p \<Rightarrow> string \<Rightarrow> 'p) \<Rightarrow> ('p \<Rightarrow> string)
     \<Rightarrow> (string list \<Rightarrow> string option \<Rightarrow> py_exc + completed_process)
     \<Rightarrow> (string \<Rightarrow> bool) \<Rightarrow> 'p
     \<Rightarrow> (string list \<times> string list \<times> (string \<times> string) list) run" where
  "run_pip_check_reqs exists joinpath str subprocess_run tag_error path =
     (let started =
            [Console (Say E_scan ''[bold cyan]Running pip-check-reqs analysis...[/bold cyan]'')];
          missing_cmd = fst (pip_check_commands exists joinpath str path);
          extra_cmd = snd (pip_check_commands exists joinpath str path);
          ran_missing = run_command subprocess_run str missing_cmd (Some path)
      in case snd ran_missing of
           Inl e \<Rightarrow> (started @ fst ran_missing, Inl e)
         | Inr missing_result \<Rightarrow>
             let ran_extra = run_command subprocess_run str extra_cmd (Some path)
             in (case snd ran_extra of
                   Inl e \<Rightarrow> (started @ fst ran_missing @ fst ran_extra, Inl e)
                 | Inr extra_result \<Rightarrow>
                     let report = pip_check_report tag_error missing_result extra_result
                     in (started @ fst ran_missing @ fst ran_extra @ map Console (fst report),
                         snd report)))"

section \<open>The fail-on-warn flag (\<^verbatim>\<open>main\<close>, lines 234 to 239)\<close>

text \<open>
  \<^verbatim>\<open>
    fail_on_warn_raw = (
        os.getenv("INPUT_FAIL_ON_WARN")
        or os.getenv("INPUT_FAIL-ON-WARN")
        or "false"
    )
    fail_on_warn = fail_on_warn_raw.strip().lower() == "true"
  \<close>
  The environment is a map from names to values; \<^verbatim>\<open>os.getenv\<close> gives \<^verbatim>\<open>None\<close> for a
  name that is not set, and \<^verbatim>\<open>or\<close> passes over \<^verbatim>\<open>None\<close> and the empty string.
\<close>

definition fail_on_warn_raw :: "(string \<rightharpoonup> string) \<Rightarrow> string" where
  "fail_on_warn_raw env =
     (case env ''INPUT_FAIL_ON_WARN'' of
        Some a \<Rightarrow>
          if a \<noteq> [] then a
          else (case env ''INPUT_FAIL-ON-WARN'' of
                  Some b \<Rightarrow> if b \<noteq> [] then b else ''false''
                | None \<Rightarrow> ''false'')
      | None \<Rightarrow>
          (case env ''INPUT_FAIL-ON-WARN'' of
             Some b \<Rightarrow> if b \<noteq> [] then b else ''false''
           | None \<Rightarrow> ''false''))"

definition fail_on_warn_of :: "(string \<rightharpoonup> string) \<Rightarrow> bool" where
  "fail_on_warn_of env = (py_lower (py_strip (fail_on_warn_raw env)) = ''true'')"

section \<open>The decision policy (\<^verbatim>\<open>main\<close>, lines 271 to 287)\<close>

text \<open>
  \<^verbatim>\<open>
    has_missing = bool(missing)
    has_unused = bool(unused)
    if has_missing or (has_unused and fail_on_warn):
        console.print(f"{EMOJI['failure']} [bold red]Dependency issues detected.[/bold red]")
        sys.exit(1)
    if has_unused and not fail_on_warn:
        console.print(f"{EMOJI['unused']} [yellow]Unused dependencies detected (warnings only).[/yellow]")
    console.print(f"{EMOJI['ok']} [bold green]All checks completed successfully.[/bold green]")
  \<close>
  These lines read the two lists and the flag, and nothing else: not the mode, not the
  diagnostics. Falling off the end of \<^verbatim>\<open>main\<close> is the result \<open>Inr ()\<close>, with which the
  interpreter exits with status 0.
\<close>

definition decision_policy :: "'a list \<Rightarrow> 'b list \<Rightarrow> bool \<Rightarrow> unit io" where
  "decision_policy missing unused fail_on_warn =
     (let has_missing = (missing \<noteq> []);
          has_unused = (unused \<noteq> [])
      in if has_missing \<or> (has_unused \<and> fail_on_warn)
         then ([Say E_failure ''[bold red]Dependency issues detected.[/bold red]''],
               Inl (SystemExit 1))
         else ((if has_unused \<and> \<not> fail_on_warn
                then [Say E_unused ''[yellow]Unused dependencies detected (warnings only).[/yellow]'']
                else [])
               @ [Say E_ok ''[bold green]All checks completed successfully.[/bold green]''],
               Inr ()))"

text \<open>The exit code of a run: the argument of \<^verbatim>\<open>sys.exit\<close>, 1 after an uncaught
  exception, 0 after a normal return.\<close>

fun exit_status :: "py_exc + 'a \<Rightarrow> int" where
  "exit_status (Inl (SystemExit n)) = n"
| "exit_status (Inl _) = 1"
| "exit_status (Inr _) = 0"

section \<open>Properties\<close>

text \<open>
  C1. Decision policy: for all lists missing and unused and every flag, the run exits with
  code 1 exactly when missing is non-empty, or unused is non-empty and the flag is set;
  otherwise it ends successfully, after a warning when unused is non-empty (the flag is
  then off), and with the success message alone when both lists are empty. The mode is
  not an argument of the policy.
\<close>

theorem decision_policy_rule:
  "(snd (decision_policy missing unused fail_on_warn) = Inl (SystemExit 1)
      \<longleftrightarrow> missing \<noteq> [] \<or> (unused \<noteq> [] \<and> fail_on_warn))
   \<and> (exit_status (snd (decision_policy missing unused fail_on_warn)) = 1
      \<longleftrightarrow> missing \<noteq> [] \<or> (unused \<noteq> [] \<and> fail_on_warn))
   \<and> (missing = [] \<and> unused \<noteq> [] \<and> \<not> fail_on_warn \<longrightarrow>
        decision_policy missing unused fail_on_warn =
          ([Say E_unused ''[yellow]Unused dependencies detected (warnings only).[/yellow]'',
            Say E_ok ''[bold green]All checks completed successfully.[/bold green]''], Inr ()))
   \<and> (missing = [] \<and> unused = [] \<longrightarrow>
        decision_policy missing unused fail_on_warn =
          ([Say E_ok ''[bold green]All checks completed successfully.[/bold green]''], Inr ()))
   \<and> (snd (decision_policy missing unused fail_on_warn) \<noteq> Inl (SystemExit 1) \<longrightarrow>
        exit_status (snd (decision_policy missing unused fail_on_warn)) = 0)"
  by (simp add: decision_policy_def Let_def)

theorem decision_policy_rule_witness:
  "exit_status (snd (decision_policy ([]::string list) ([]::string list) False)) = 0
   \<and> decision_policy ([]::string list) [''x''] False =
        ([Say E_unused ''[yellow]Unused dependencies detected (warnings only).[/yellow]'',
          Say E_ok ''[bold green]All checks completed successfully.[/bold green]''], Inr ())
   \<and> snd (decision_policy ([]::string list) [''x''] True) = Inl (SystemExit 1)
   \<and> snd (decision_policy [''x''] ([]::string list) False) = Inl (SystemExit 1)"
  using decision_policy_rule [of "[]::string list" "[]::string list" False]
        decision_policy_rule [of "[]::string list" "[''x'']" False]
        decision_policy_rule [of "[]::string list" "[''x'']" True]
        decision_policy_rule [of "[''x'']" "[]::string list" False]
  by simp

subsection \<open>The structured parser\<close>

lemma py_strip_Nil_iff: "py_strip s = [] \<longleftrightarrow> (\<forall>c\<in>set s. py_isspace c)"
proof
  assume "py_strip s = []"
  then have a: "\<forall>c\<in>set (dropWhile py_isspace s). py_isspace c"
    by (simp add: py_strip_def dropWhile_eq_Nil_conv)
  show "\<forall>c\<in>set s. py_isspace c"
  proof (cases "dropWhile py_isspace s")
    case Nil
    then show ?thesis by (simp add: dropWhile_eq_Nil_conv)
  next
    case (Cons x xs)
    then have "\<not> py_isspace x" by (metis hd_dropWhile list.sel(1) list.distinct(1))
    with a Cons show ?thesis by simp
  qed
next
  assume "\<forall>c\<in>set s. py_isspace c"
  then show "py_strip s = []" by (auto simp: py_strip_def dest: set_dropWhileD)
qed

text \<open>
  C7. Empty structured output: a standard output that is empty or holds only whitespace
  gives two empty name lists, with nothing printed and no error, whatever \<^verbatim>\<open>json.loads\<close>
  would have said of it.
\<close>

theorem parse_deptry_report_blank:
  assumes "\<forall>c\<in>set out. py_isspace c"
  shows "parse_deptry_report loads tag_error repr_items out = ([], Inr ([], []))"
  using assms by (simp add: parse_deptry_report_def py_strip_Nil_iff)

theorem parse_deptry_report_blank_witness:
  "parse_deptry_report (\<lambda>s. Inl ''Expecting value: line 1 column 1 (char 0)'') (\<lambda>s. True)
     (\<lambda>kvs. []) [] = ([], Inr ([], []))
   \<and> parse_deptry_report (\<lambda>s. Inl ''Expecting value: line 2 column 3 (char 4)'') (\<lambda>s. True)
     (\<lambda>kvs. []) [CHR '' '', CHR 0x0A, CHR 0x09, CHR '' ''] = ([], Inr ([], []))"
proof -
  have e: "\<forall>c\<in>set ([]::string). py_isspace c" by simp
  have w: "\<forall>c\<in>set [CHR '' '', CHR 0x0A, CHR 0x09, CHR '' '']. py_isspace c"
    by (simp add: py_isspace_def)
  show ?thesis
    by (simp only: parse_deptry_report_blank [OF e] parse_deptry_report_blank [OF w])
qed

text \<open>
  Where the renderer accepts both texts, an output that \<^verbatim>\<open>json.loads\<close> refuses is
  reported with the text of the exception and the raw output, and the parser exits
  with code 2.
\<close>

lemma parse_deptry_report_malformed_rendered:
  assumes "\<exists>c\<in>set out. \<not> py_isspace c" and "loads out = Inl exc"
    and "\<not> markup_error tag_error
             (''[bold red]Unable to parse deptry output as JSON:[/bold red] '' @ exc)"
    and "\<not> markup_error tag_error out"
  shows "parse_deptry_report loads tag_error repr_items out =
           ([Say E_failure
               (''[bold red]Unable to parse deptry output as JSON:[/bold red] '' @ exc),
             Plain out],
            Inl (SystemExit 2))"
proof -
  from assms(1) have "py_strip out \<noteq> []" by (simp add: py_strip_Nil_iff)
  with assms(2,3,4) show ?thesis by (simp add: parse_deptry_report_def Let_def)
qed

text \<open>
  C8. Malformed structured output: the claim is that every output that is not blank and
  not valid JSON is reported with the failure and the raw text, and ends the process
  with exit code 2. The raw text is printed by \<^verbatim>\<open>console.print(stdout)\<close>, which renders it
  as markup. For an output that \<^verbatim>\<open>json.loads\<close> refuses and on which the renderer raises
  (the output \<^verbatim>\<open>[/x]\<close> is one: a closing tag with no open tag), the parser ends with
  \<^verbatim>\<open>MarkupError\<close>: the raw text is not printed, \<^verbatim>\<open>sys.exit(2)\<close> is not reached, and the
  exit code of the run is 1.
\<close>

theorem parse_deptry_report_markup_crash:
  assumes "\<exists>c\<in>set out. \<not> py_isspace c" and "loads out = Inl exc"
    and "markup_error tag_error out"
  shows "snd (parse_deptry_report loads tag_error repr_items out) = Inl MarkupError
         \<and> exit_status (snd (parse_deptry_report loads tag_error repr_items out)) = 1
         \<and> Plain out \<notin> set (fst (parse_deptry_report loads tag_error repr_items out))"
proof -
  from assms(1) have "py_strip out \<noteq> []" by (simp add: py_strip_Nil_iff)
  with assms(2,3) show ?thesis by (simp add: parse_deptry_report_def Let_def)
qed

theorem parse_deptry_report_markup_crash_witness:
  "parse_deptry_report (\<lambda>s. Inl ''Expecting value: line 1 column 2 (char 1)'')
       (\<lambda>s. s = ''[/x]'') (\<lambda>kvs. []) ''[/x]''
     = ([Say E_failure (''[bold red]Unable to parse deptry output as JSON:[/bold red] ''
                        @ ''Expecting value: line 1 column 2 (char 1)'')],
        Inl MarkupError)
   \<and> exit_status (snd (parse_deptry_report (\<lambda>s. Inl ''Expecting value: line 1 column 2 (char 1)'')
       (\<lambda>s. s = ''[/x]'') (\<lambda>kvs. []) ''[/x]'')) = 1"
proof -
  have 1: "\<exists>c\<in>set ''[/x]''. \<not> py_isspace c" by (simp add: py_isspace_def)
  have 3: "markup_error (\<lambda>s. s = ''[/x]'') ''[/x]''" by (simp add: markup_error_def)
  have s: "py_strip ''[/x]'' \<noteq> []" using 1 by (simp add: py_strip_Nil_iff)
  have "fst (parse_deptry_report (\<lambda>s. Inl ''Expecting value: line 1 column 2 (char 1)'')
       (\<lambda>s. s = ''[/x]'') (\<lambda>kvs. []) ''[/x]'')
     = [Say E_failure (''[bold red]Unable to parse deptry output as JSON:[/bold red] ''
                        @ ''Expecting value: line 1 column 2 (char 1)'')]"
    using s by (simp add: parse_deptry_report_def Let_def markup_error_def)
  with parse_deptry_report_markup_crash [OF 1 _ 3,
      of "\<lambda>s. Inl ''Expecting value: line 1 column 2 (char 1)''"
         "''Expecting value: line 1 column 2 (char 1)''" "\<lambda>kvs. []"]
  show ?thesis by (simp add: prod_eq_iff)
qed

lemma entry_names_dicts:
  assumes "\<forall>e\<in>set es. \<exists>kvs. e = PDict kvs"
  shows "\<exists>ns. entry_names repr_items es = Inr ns
           \<and> list_all2 (\<lambda>e n. \<exists>kvs. e = PDict kvs \<and>
                 n = (if truthy (dict_get kvs ''module'' PNone)
                      then dict_get kvs ''module'' PNone
                      else if truthy (dict_get kvs ''name'' PNone)
                      then dict_get kvs ''name'' PNone
                      else PStr (''{'' @ repr_items kvs @ ''}''))) es ns"
  using assms
proof (induction es)
  case Nil
  then show ?case by simp
next
  case (Cons e es)
  then obtain kvs where e: "e = PDict kvs" by auto
  from Cons obtain ns where ns: "entry_names repr_items es = Inr ns"
    and all2: "list_all2 (\<lambda>e n. \<exists>kvs. e = PDict kvs \<and>
                 n = (if truthy (dict_get kvs ''module'' PNone)
                      then dict_get kvs ''module'' PNone
                      else if truthy (dict_get kvs ''name'' PNone)
                      then dict_get kvs ''name'' PNone
                      else PStr (''{'' @ repr_items kvs @ ''}''))) es ns"
    by auto
  show ?case using e ns all2 by simp
qed

text \<open>
  On a document that is an object whose \<^verbatim>\<open>missing\<close> and \<^verbatim>\<open>unused\<close> keys, where present,
  hold arrays of objects, the parser returns one name for each entry, in the order of
  the entries: the value under \<^verbatim>\<open>module\<close> when it is true in Python's sense, else the
  value under \<^verbatim>\<open>name\<close> when that is, else the string form of the entry.
\<close>

lemma deptry_findings_object_entries:
  assumes "dict_get obj ''missing'' (PList []) = PList ms"
    and "dict_get obj ''unused'' (PList []) = PList us"
    and "\<forall>e\<in>set (ms @ us). \<exists>kvs. e = PDict kvs"
  shows "\<exists>missing unused.
           deptry_findings repr_items (PDict obj) = Inr (missing, unused)
           \<and> list_all2 (\<lambda>e n. \<exists>kvs. e = PDict kvs \<and>
                 n = (if truthy (dict_get kvs ''module'' PNone)
                      then dict_get kvs ''module'' PNone
                      else if truthy (dict_get kvs ''name'' PNone)
                      then dict_get kvs ''name'' PNone
                      else PStr (''{'' @ repr_items kvs @ ''}''))) ms missing
           \<and> list_all2 (\<lambda>e n. \<exists>kvs. e = PDict kvs \<and>
                 n = (if truthy (dict_get kvs ''module'' PNone)
                      then dict_get kvs ''module'' PNone
                      else if truthy (dict_get kvs ''name'' PNone)
                      then dict_get kvs ''name'' PNone
                      else PStr (''{'' @ repr_items kvs @ ''}''))) us unused
           \<and> (\<forall>loads out. py_strip out \<noteq> [] \<and> loads out = Inr (PDict obj) \<longrightarrow>
                 parse_deptry_report loads tag_error repr_items out = ([], Inr (missing, unused)))"
proof -
  from assms(3) have m: "\<forall>e\<in>set ms. \<exists>kvs. e = PDict kvs"
    and u: "\<forall>e\<in>set us. \<exists>kvs. e = PDict kvs" by auto
  from entry_names_dicts [OF m, of repr_items] obtain missing
    where m1: "entry_names repr_items ms = Inr missing"
      and m2: "list_all2 (\<lambda>e n. \<exists>kvs. e = PDict kvs \<and>
                 n = (if truthy (dict_get kvs ''module'' PNone)
                      then dict_get kvs ''module'' PNone
                      else if truthy (dict_get kvs ''name'' PNone)
                      then dict_get kvs ''name'' PNone
                      else PStr (''{'' @ repr_items kvs @ ''}''))) ms missing"
    by blast
  from entry_names_dicts [OF u, of repr_items] obtain unused
    where u1: "entry_names repr_items us = Inr unused"
      and u2: "list_all2 (\<lambda>e n. \<exists>kvs. e = PDict kvs \<and>
                 n = (if truthy (dict_get kvs ''module'' PNone)
                      then dict_get kvs ''module'' PNone
                      else if truthy (dict_get kvs ''name'' PNone)
                      then dict_get kvs ''name'' PNone
                      else PStr (''{'' @ repr_items kvs @ ''}''))) us unused"
    by blast
  have d: "deptry_findings repr_items (PDict obj) = Inr (missing, unused)"
    using assms(1,2) m1 u1 by (simp add: deptry_findings_def)
  have p: "\<forall>loads out. py_strip out \<noteq> [] \<and> loads out = Inr (PDict obj) \<longrightarrow>
             parse_deptry_report loads tag_error repr_items out = ([], Inr (missing, unused))"
    using d by (simp add: parse_deptry_report_def)
  from d m2 u2 p show ?thesis by blast
qed

text \<open>
  C5. Entry naming: the claim is that, for every document that \<^verbatim>\<open>json.loads\<close> accepts,
  every entry of the two sequences yields one name, from its \<^verbatim>\<open>module\<close> field, then its
  \<^verbatim>\<open>name\<close> field, then its string form. The document
  \<^verbatim>\<open>{"missing": ["requests"], "unused": []}\<close> is accepted; its entry is the string
  \<^verbatim>\<open>requests\<close>, which is its own string form. The comprehension calls \<^verbatim>\<open>item.get\<close> before
  \<^verbatim>\<open>str(item)\<close> and a string has no \<^verbatim>\<open>get\<close>: the parser raises \<^verbatim>\<open>AttributeError\<close> and
  returns no name.
\<close>

theorem deptry_findings_string_entry:
  "\<forall>repr_items.
     deptry_findings repr_items
       (PDict [(''missing'', PList [PStr ''requests'']), (''unused'', PList [])])
     = Inl AttributeError"
  by (simp add: deptry_findings_def dict_get_def)

text \<open>
  C3. Round trip: the claim is that the two name lists of a document, written back as a
  fresh document with the keys \<^verbatim>\<open>missing\<close> and \<^verbatim>\<open>unused\<close>, are parsed to the same two
  lists. The names of \<^verbatim>\<open>{"missing": [{"module": "requests"}], "unused":
  [{"module": "boto3"}]}\<close> are \<^verbatim>\<open>requests\<close> and \<^verbatim>\<open>boto3\<close>; on the fresh document
  \<^verbatim>\<open>{"missing": ["requests"], "unused": ["boto3"]}\<close> the parser raises
  \<^verbatim>\<open>AttributeError\<close> at \<^verbatim>\<open>item.get\<close>, as it does on every entry that is a string.
\<close>

theorem deptry_findings_roundtrip_plain_fails:
  "\<forall>repr_items.
     deptry_findings repr_items
       (PDict [(''missing'', PList [PDict [(''module'', PStr ''requests'')]]),
               (''unused'', PList [PDict [(''module'', PStr ''boto3'')]])])
       = Inr ([PStr ''requests''], [PStr ''boto3''])
     \<and> deptry_findings repr_items (reserialize_names [PStr ''requests''] [PStr ''boto3''])
       = Inl AttributeError"
  by (simp add: deptry_findings_def dict_get_def reserialize_names_def)

text \<open>
  C6. No duplicates: in the mode of the structured analyzer the lists are the names of
  the entries as they come, and an output that reports a module twice gives a list that
  holds it twice.
\<close>

theorem deptry_findings_duplicates:
  "\<forall>repr_items.
     deptry_findings repr_items
       (PDict [(''missing'', PList [PDict [(''module'', PStr ''requests'')],
                                    PDict [(''module'', PStr ''requests'')]]),
               (''unused'', PList [])])
       = Inr ([PStr ''requests'', PStr ''requests''], [])
     \<and> \<not> distinct [PStr ''requests'', PStr ''requests'']"
  by (simp add: deptry_findings_def dict_get_def)


subsection \<open>The line-oriented parser\<close>

lemma py_isspace_iff:
  "py_isspace c \<longleftrightarrow>
     c \<in> {CHR 0x09, CHR 0x0A, CHR 0x0B, CHR 0x0C, CHR 0x0D, CHR 0x1C, CHR 0x1D, CHR 0x1E,
          CHR 0x1F, CHR 0x20, CHR 0x85, CHR 0xA0}"
proof -
  have e: "c = d \<longleftrightarrow> (of_char c :: nat) = of_char d" for d by (simp only: of_char_eq_iff)
  show ?thesis by (simp add: py_isspace_def e)
qed

lemma is_linebreak_isspace: "is_linebreak c \<Longrightarrow> py_isspace c"
  by (auto simp: is_linebreak_def py_isspace_def)

lemma not_allowed_chars:
  "CHR '','' \<notin> set allowed_chars" "CHR '':'' \<notin> set allowed_chars"
  "CHR ''#'' \<notin> set allowed_chars" "CHR ''='' \<notin> set allowed_chars"
  "CHR '' '' \<notin> set allowed_chars"
  by (simp_all add: allowed_chars_def)

lemma allowed_not_space: "c \<in> set allowed_chars \<Longrightarrow> \<not> py_isspace c"
  by (auto simp: py_isspace_iff allowed_chars_def)

lemma allowed_chars_props:
  assumes "c \<in> set allowed_chars"
  shows "\<not> py_isspace c" and "\<not> is_linebreak c" and "c \<noteq> CHR 0x0D" and "c \<noteq> CHR '',''"
    and "c \<noteq> CHR '':''" and "c \<noteq> CHR '' ''" and "c \<noteq> CHR ''#''" and "c \<noteq> CHR ''=''"
proof -
  show s: "\<not> py_isspace c" using assms by (rule allowed_not_space)
  then show "\<not> is_linebreak c" using is_linebreak_isspace by blast
  from s show "c \<noteq> CHR 0x0D" by (auto simp: py_isspace_iff)
  from assms not_allowed_chars show "c \<noteq> CHR '',''" "c \<noteq> CHR '':''" "c \<noteq> CHR '' ''"
    "c \<noteq> CHR ''#''" "c \<noteq> CHR ''=''" by blast+
qed

lemma of_char_lower_char:
  "(of_char (lower_char c) :: nat) =
     (if (65 \<le> (of_char c :: nat) \<and> (of_char c :: nat) \<le> 90)
         \<or> (192 \<le> (of_char c :: nat) \<and> (of_char c :: nat) \<le> 222 \<and> (of_char c :: nat) \<noteq> 215)
      then of_char c + 32 else of_char c)"
  by (auto simp: lower_char_def Let_def of_char_of)

lemma lower_char_eq_space: "lower_char c = CHR '' '' \<longleftrightarrow> c = CHR '' ''"
proof -
  have "lower_char c = CHR '' '' \<longleftrightarrow> (of_char (lower_char c) :: nat) = of_char (CHR '' '')"
    by (simp only: of_char_eq_iff)
  also have "\<dots> \<longleftrightarrow> (of_char c :: nat) = of_char (CHR '' '')"
    by (auto simp: of_char_lower_char)
  also have "\<dots> \<longleftrightarrow> c = CHR '' ''" by (simp only: of_char_eq_iff)
  finally show ?thesis .
qed

lemma lower_char_eq_colon: "lower_char c = CHR '':'' \<longleftrightarrow> c = CHR '':''"
proof -
  have "lower_char c = CHR '':'' \<longleftrightarrow> (of_char (lower_char c) :: nat) = of_char (CHR '':'')"
    by (simp only: of_char_eq_iff)
  also have "\<dots> \<longleftrightarrow> (of_char c :: nat) = of_char (CHR '':'')"
    by (auto simp: of_char_lower_char)
  also have "\<dots> \<longleftrightarrow> c = CHR '':''" by (simp only: of_char_eq_iff)
  finally show ?thesis .
qed

lemma startswith_set: "startswith s p \<Longrightarrow> set p \<subseteq> set s"
  unfolding startswith_def by (metis set_take_subset)

lemma dropWhile_none: "\<forall>c\<in>set s. \<not> P c \<Longrightarrow> dropWhile P s = s"
  by (cases s) auto

lemma py_strip_id: "\<forall>c\<in>set s. \<not> py_isspace c \<Longrightarrow> py_strip s = s"
  by (simp add: py_strip_def dropWhile_none)

lemma py_strip_chars_id: "\<forall>c\<in>set s. c \<notin> set chars \<Longrightarrow> py_strip_chars chars s = s"
  by (simp add: py_strip_chars_def dropWhile_none)

lemma split_from_token:
  "\<forall>c\<in>set s. \<not> py_isspace c \<Longrightarrow>
     split_from cur s = (if cur = [] \<and> s = [] then [] else [rev cur @ s])"
  by (induction s arbitrary: cur) auto

lemma splitlines_from_line:
  "\<forall>c\<in>set s. \<not> is_linebreak c \<and> c \<noteq> CHR 0x0D \<Longrightarrow>
     splitlines_from cur s = (if cur = [] \<and> s = [] then [] else [rev cur @ s])"
  by (induction s arbitrary: cur) auto

lemma split_from_Nil_iff:
  "split_from cur s = [] \<longleftrightarrow> cur = [] \<and> (\<forall>c\<in>set s. py_isspace c)"
  by (induction s arbitrary: cur) auto

lemma py_split_Nil_iff: "py_split s = [] \<longleftrightarrow> (\<forall>c\<in>set s. py_isspace c)"
  by (simp add: py_split_def split_from_Nil_iff)

lemma py_strip_last: "py_strip s \<noteq> [] \<Longrightarrow> \<not> py_isspace (last (py_strip s))"
proof -
  assume a: "py_strip s \<noteq> []"
  let ?ys = "dropWhile py_isspace (rev (dropWhile py_isspace s))"
  from a have ne: "?ys \<noteq> []" by (simp add: py_strip_def)
  then have "\<not> py_isspace (hd ?ys)" by (rule hd_dropWhile)
  moreover have "last (py_strip s) = hd ?ys" using ne by (simp add: py_strip_def last_rev)
  ultimately show ?thesis by simp
qed

lemma scan_line_total: "\<exists>r. scan_line line = Inr r"
proof (cases "py_strip line = []")
  case True
  then show ?thesis by (simp add: scan_line_def)
next
  case False
  let ?clean = "py_strip line"
  from False have l: "\<not> py_isspace (last ?clean)" by (rule py_strip_last)
  have a: "py_split ?clean \<noteq> []"
    using False l by (auto simp: py_split_Nil_iff)
  have b: "py_split (drop 2 ?clean) \<noteq> []" if "startswith_any ?clean [''- '', ''* '']"
  proof -
    from that obtain x rest where c: "?clean = x # CHR '' '' # rest"
      by (cases ?clean; cases "tl ?clean") (auto simp: startswith_any_def startswith_def)
    have "rest \<noteq> []"
    proof
      assume "rest = []"
      with c have "last ?clean = CHR '' ''" by simp
      with l show False by (simp add: py_isspace_def)
    qed
    with c have "last rest = last ?clean" by simp
    with l \<open>rest \<noteq> []\<close> have "\<exists>c\<in>set rest. \<not> py_isspace c"
      using last_in_set by metis
    with c show ?thesis by (simp add: py_split_Nil_iff)
  qed
  show ?thesis
    using a b by (auto simp: scan_line_def Let_def split: list.splits)
qed

lemma scan_lines_result:
  "\<exists>ms. scan_lines acc ls = Inr (acc @ ms)
        \<and> set ms = {c. \<exists>l\<in>set ls. scan_line l = Inr (Some c)}"
proof (induction ls arbitrary: acc)
  case Nil
  then show ?case by simp
next
  case (Cons l ls)
  from scan_line_total [of l] obtain r where r: "scan_line l = Inr r" by blast
  show ?case
  proof (cases r)
    case None
    with r Cons [of acc] show ?thesis by auto
  next
    case (Some c)
    from Cons [of "acc @ [c]"] obtain ms where
      "scan_lines (acc @ [c]) ls = Inr ((acc @ [c]) @ ms)"
      "set ms = {c. \<exists>l\<in>set ls. scan_line l = Inr (Some c)}" by blast
    with r Some show ?thesis
      by (intro exI [of _ "c # ms"]) auto
  qed
qed

lemma scan_lines_skip:
  "scan_line l = Inr None \<Longrightarrow> scan_lines acc (pre @ l # post) = scan_lines acc (pre @ post)"
  by (induction pre arbitrary: acc) (auto split: sum.splits option.splits)

lemma parse_pip_check_output_result:
  "\<exists>ms. parse_pip_check_output out = Inr ms \<and> distinct ms \<and> sorted ms
        \<and> set ms = {c. \<exists>l\<in>set (py_splitlines out). scan_line l = Inr (Some c)}"
proof -
  from scan_lines_result [of "[]" "py_splitlines out"] obtain ms where
    "scan_lines [] (py_splitlines out) = Inr ms"
    "set ms = {c. \<exists>l\<in>set (py_splitlines out). scan_line l = Inr (Some c)}" by auto
  then show ?thesis by (simp add: parse_pip_check_output_def)
qed


lemma scan_line_bare_token:
  assumes "t \<noteq> []" and "\<forall>c\<in>set t. c \<in> set allowed_chars"
    and "\<not> startswith_any (py_lower t) [''configuration'', ''results'', ''warning'']"
    and "\<not> startswith t ''---''"
  shows "scan_line t = Inr (Some t)"
proof -
  from assms(2) have ns: "\<forall>c\<in>set t. \<not> py_isspace c" by (simp add: allowed_chars_props)
  then have strip: "py_strip t = t" by (rule py_strip_id)
  from assms(2) have sp: "CHR '' '' \<notin> set t" and co: "CHR '':'' \<notin> set t"
    and ha: "CHR ''#'' \<notin> set t" and eq: "CHR ''='' \<notin> set t" and cm: "CHR '','' \<notin> set t"
    using not_allowed_chars by blast+
  from sp have lsp: "CHR '' '' \<notin> set (py_lower t)"
    by (metis (no_types, lifting) imageE lower_char_eq_space list.set_map py_lower_def)
  from co have lco: "CHR '':'' \<notin> set (py_lower t)"
    by (metis (no_types, lifting) imageE lower_char_eq_colon list.set_map py_lower_def)
  have nsp: "\<not> startswith s p" if "CHR '' '' \<in> set p" "CHR '' '' \<notin> set s" for s p
    using that startswith_set by blast
  have nco: "\<not> startswith s p" if "CHR '':'' \<in> set p" "CHR '':'' \<notin> set s" for s p
    using that startswith_set by blast
  have h1: "\<not> startswith_any (py_lower t)
              [''examining '', ''missing requirements'', ''unused requirements'',
               ''extra requirements'']"
    using lsp by (simp add: startswith_any_def nsp)
  have h2: "\<not> startswith_any (py_lower t)
              [''configuration'', ''results'', ''to fix'', ''hint:'', ''warning'']"
    using assms(3) lsp lco by (simp add: startswith_any_def nsp nco)
  have "\<not> startswith t ''#''" using ha startswith_set [of t "''#''"] by auto
  moreover have "\<not> startswith t ''=''" using eq startswith_set [of t "''=''"] by auto
  ultimately have h3: "\<not> startswith_any t [''#'', ''='', ''---'']"
    using assms(4) by (simp add: startswith_any_def)
  have h5: "\<not> startswith_any t [''- '', ''* '']"
    using sp by (simp add: startswith_any_def nsp)
  have spl: "py_split t = [t]" using ns assms(1) by (simp add: py_split_def split_from_token)
  have sc: "py_strip_chars '','' t = t" using cm by (intro py_strip_chars_id) auto
  have la: "list_all (\<lambda>ch. ch \<in> set allowed_chars) t" using assms(2) by (simp add: list_all_iff)
  show ?thesis
    using assms(1) by (simp add: scan_line_def Let_def strip h1 h2 h3 co h5 spl sc la)
qed

lemma py_splitlines_token:
  assumes "t \<noteq> []" and "\<forall>c\<in>set t. c \<in> set allowed_chars"
  shows "py_splitlines t = [t]"
proof -
  from assms(2) have "\<forall>c\<in>set t. \<not> is_linebreak c \<and> c \<noteq> CHR 0x0D"
    by (simp add: allowed_chars_props)
  then show ?thesis using assms(1) by (simp add: py_splitlines_def splitlines_from_line)
qed

lemma scan_line_header:
  assumes "startswith_any (py_lower (py_strip l))
             [''examining '', ''missing requirements'', ''unused requirements'',
              ''extra requirements'', ''configuration'', ''results'', ''to fix'', ''hint:'',
              ''warning'']"
  shows "scan_line l = Inr None"
  using assms by (auto simp: scan_line_def Let_def startswith_any_def)

text \<open>
  C4 (as amended). Tokens and headers of the line-oriented parser. A line that is one
  token of the letters a to z and A to Z, the digits, hyphen, underscore and dot, that
  does not start with three hyphens and whose lowercase form does not start with
  \<^verbatim>\<open>configuration\<close>, \<^verbatim>\<open>results\<close> or \<^verbatim>\<open>warning\<close>, gives exactly that token when it is
  the whole output, and the token is in the result of every output that has it as a line.
  A line whose stripped and lowercased form starts with one of the nine header prefixes
  appends nothing: the loop over the lines gives the same result with the line removed.
\<close>

theorem parse_pip_check_output_lines:
  "(t \<noteq> [] \<and> (\<forall>c\<in>set t. c \<in> set allowed_chars)
      \<and> \<not> startswith_any (py_lower t) [''configuration'', ''results'', ''warning'']
      \<and> \<not> startswith t ''---''
    \<longrightarrow> parse_pip_check_output t = Inr [t]
        \<and> (\<forall>out. t \<in> set (py_splitlines out) \<longrightarrow>
              (\<exists>ms. parse_pip_check_output out = Inr ms \<and> t \<in> set ms)))
   \<and> (startswith_any (py_lower (py_strip l))
         [''examining '', ''missing requirements'', ''unused requirements'',
          ''extra requirements'', ''configuration'', ''results'', ''to fix'', ''hint:'',
          ''warning'']
    \<longrightarrow> scan_line l = Inr None
        \<and> (\<forall>modules pre post.
              scan_lines modules (pre @ l # post) = scan_lines modules (pre @ post)))"
proof (intro conjI impI)
  assume a: "t \<noteq> [] \<and> (\<forall>c\<in>set t. c \<in> set allowed_chars)
      \<and> \<not> startswith_any (py_lower t) [''configuration'', ''results'', ''warning'']
      \<and> \<not> startswith t ''---''"
  then have tok: "scan_line t = Inr (Some t)" by (intro scan_line_bare_token) simp_all
  from a have "py_splitlines t = [t]" by (intro py_splitlines_token) simp_all
  with tok show "parse_pip_check_output t = Inr [t]"
    by (simp add: parse_pip_check_output_def)
  show "\<forall>out. t \<in> set (py_splitlines out) \<longrightarrow>
          (\<exists>ms. parse_pip_check_output out = Inr ms \<and> t \<in> set ms)"
  proof (intro allI impI)
    fix out
    assume "t \<in> set (py_splitlines out)"
    with tok parse_pip_check_output_result [of out]
    show "\<exists>ms. parse_pip_check_output out = Inr ms \<and> t \<in> set ms" by blast
  qed
next
  assume "startswith_any (py_lower (py_strip l))
         [''examining '', ''missing requirements'', ''unused requirements'',
          ''extra requirements'', ''configuration'', ''results'', ''to fix'', ''hint:'',
          ''warning'']"
  then show n: "scan_line l = Inr None" by (rule scan_line_header)
  then show "\<forall>modules pre post.
              scan_lines modules (pre @ l # post) = scan_lines modules (pre @ post)"
    by (simp add: scan_lines_skip)
qed

theorem parse_pip_check_output_lines_witness:
  "parse_pip_check_output ''requests'' = Inr [''requests'']
   \<and> scan_line ''Missing requirements:'' = Inr None"
proof -
  have 1: "''requests'' \<noteq> [] \<and> (\<forall>c\<in>set ''requests''. c \<in> set allowed_chars)
      \<and> \<not> startswith_any (py_lower ''requests'') [''configuration'', ''results'', ''warning'']
      \<and> \<not> startswith ''requests'' ''---''"
    by (simp add: allowed_chars_def startswith_any_def startswith_def py_lower_def)
  have 2: "startswith_any (py_lower (py_strip ''Missing requirements:''))
         [''examining '', ''missing requirements'', ''unused requirements'',
          ''extra requirements'', ''configuration'', ''results'', ''to fix'', ''hint:'',
          ''warning'']"
    by code_simp
  from parse_pip_check_output_lines [of "''requests''" "''Missing requirements:''"] 1 2
  show ?thesis by blast
qed

text \<open>
  The claim C4 as it is written fails on both sides. The line \<^verbatim>\<open>warnings\<close> is one token
  of letters, and it is dropped, by the test for the prefix \<^verbatim>\<open>warning\<close>. The line
  \<^verbatim>\<open>examining\<close> followed by one space starts with the header prefix of that spelling, and
  it yields the token \<^verbatim>\<open>examining\<close>: the prefixes are tested after the line is
  stripped.
\<close>

theorem parse_pip_check_output_dropped_token:
  "parse_pip_check_output ''warnings'' = Inr []
   \<and> parse_pip_check_output ''examining '' = Inr [''examining'']"
  by code_simp


subsection \<open>The requirements-file runner\<close>




lemma print_panels_ok:
  "\<forall>p\<in>set panels. \<not> markup_error tag_error (fst p) \<Longrightarrow>
     snd (print_panels tag_error panels) = Inr ()"
  by (induction panels) auto




lemma pip_check_report_unexpected:
  assumes "returncode m \<notin> {0, 1} \<or> returncode e \<notin> {0, 1}"
    and "\<forall>d\<in>set (pip_diagnostics m e). \<not> markup_error tag_error (snd d)"
  shows "snd (pip_check_report tag_error m e) =
           Inl (SystemExit (if returncode m \<noteq> 0 then returncode m else returncode e))"
proof -
  have "\<forall>p\<in>set (map (\<lambda>d. (snd d, fst d @ '' stderr'', ''red'')) (pip_diagnostics m e)).
          \<not> markup_error tag_error (fst p)"
    using assms(2) by simp
  then have p: "snd (print_panels tag_error
              (map (\<lambda>d. (snd d, fst d @ '' stderr'', ''red'')) (pip_diagnostics m e))) = Inr ()"
    by (rule print_panels_ok)
  have "returncode m = 0 \<Longrightarrow> returncode e \<noteq> 0" using assms(1) by auto
  then show ?thesis
    unfolding pip_check_report_def Let_def
    by (simp only: if_P [OF assms(1)] p snd_conv sum.case) simp
qed



text \<open>
  C2. Error propagation of the requirements-file runner: with no manifest in
  \<^verbatim>\<open>/repo\<close>, the missing-check ending with 1 and the extra-check ending with 3, the
  status 3 is the only one that is neither 0 nor 1, and the runner exits with 1.
\<close>

theorem run_pip_check_reqs_exit_one:
  "run_pip_check_reqs (\<lambda>p. False) (\<lambda>p n. p @ ''/'' @ n) (\<lambda>p. p)
     (\<lambda>cmd cwd. if cmd = [''pip-missing-reqs'', ''/repo'']
                then Inr \<lparr>returncode = 1, stdout = ''requests'', stderr = []\<rparr>
                else Inr \<lparr>returncode = 3, stdout = [], stderr = ''boom''\<rparr>)
     tag_error ''/repo''
   = ([Console (Say E_scan ''[bold cyan]Running pip-check-reqs analysis...[/bold cyan]''),
       Subprocess [''pip-missing-reqs'', ''/repo''] (Some ''/repo''),
       Subprocess [''pip-extra-reqs'', ''/repo''] (Some ''/repo''),
       Console (Say E_failure
         ''[bold red]pip-check-reqs commands exited with an unexpected status.[/bold red]''),
       Console (PanelFit ''boom'' ''pip-extra-reqs stderr'' ''red'')],
      Inl (SystemExit 1))"
proof -
  have r: "pip_check_report tag_error \<lparr>returncode = 1, stdout = ''requests'', stderr = []\<rparr>
             \<lparr>returncode = 3, stdout = [], stderr = ''boom''\<rparr>
           = ([Say E_failure
                 ''[bold red]pip-check-reqs commands exited with an unexpected status.[/bold red]'',
               PanelFit ''boom'' ''pip-extra-reqs stderr'' ''red''],
              Inl (SystemExit 1))"
    by (simp add: pip_check_report_def pip_diagnostics_def markup_error_def Let_def)
  have c: "pip_check_commands (\<lambda>p. False) (\<lambda>p n. p @ ''/'' @ n) (\<lambda>p. p) ''/repo''
           = ([''pip-missing-reqs'', ''/repo''], [''pip-extra-reqs'', ''/repo''])"
    by (simp add: pip_check_commands_def select_requirements_file_def Let_def)
  show ?thesis
    unfolding run_pip_check_reqs_def Let_def c by (simp add: run_command_def r)
qed

theorem run_pip_check_reqs_exit_one_witness:
  "\<forall>tag_error.
     exit_status
       (snd (run_pip_check_reqs (\<lambda>p. False) (\<lambda>p n. p @ ''/'' @ n) (\<lambda>p. p)
               (\<lambda>cmd cwd. if cmd = [''pip-missing-reqs'', ''/repo'']
                          then Inr \<lparr>returncode = 1, stdout = ''requests'', stderr = []\<rparr>
                          else Inr \<lparr>returncode = 3, stdout = [], stderr = ''boom''\<rparr>)
               tag_error ''/repo''))
     = 1"
  using run_pip_check_reqs_exit_one by simp

subsection \<open>The fail-on-warn flag\<close>

lemma lower_char_eq_letter:
  "lower_char x = CHR ''t'' \<longleftrightarrow> x = CHR ''t'' \<or> x = CHR ''T''"
  "lower_char x = CHR ''r'' \<longleftrightarrow> x = CHR ''r'' \<or> x = CHR ''R''"
  "lower_char x = CHR ''u'' \<longleftrightarrow> x = CHR ''u'' \<or> x = CHR ''U''"
  "lower_char x = CHR ''e'' \<longleftrightarrow> x = CHR ''e'' \<or> x = CHR ''E''"
proof -
  have e: "y = d \<longleftrightarrow> (of_char y :: nat) = of_char d" for y d by (simp only: of_char_eq_iff)
  show "lower_char x = CHR ''t'' \<longleftrightarrow> x = CHR ''t'' \<or> x = CHR ''T''"
    "lower_char x = CHR ''r'' \<longleftrightarrow> x = CHR ''r'' \<or> x = CHR ''R''"
    "lower_char x = CHR ''u'' \<longleftrightarrow> x = CHR ''u'' \<or> x = CHR ''U''"
    "lower_char x = CHR ''e'' \<longleftrightarrow> x = CHR ''e'' \<or> x = CHR ''E''"
    by (auto simp: e of_char_lower_char split: if_splits)
qed

lemma map_eq_four:
  "map f s = [w, x, y, z] \<longleftrightarrow>
     (\<exists>a b c d. s = [a, b, c, d] \<and> f a = w \<and> f b = x \<and> f c = y \<and> f d = z)"
  by (auto simp: map_eq_Cons_conv)

lemma py_lower_true_iff:
  "py_lower s = ''true'' \<longleftrightarrow>
     (\<exists>a b c d. s = [a, b, c, d] \<and> a \<in> {CHR ''t'', CHR ''T''} \<and> b \<in> {CHR ''r'', CHR ''R''}
        \<and> c \<in> {CHR ''u'', CHR ''U''} \<and> d \<in> {CHR ''e'', CHR ''E''})"
  unfolding py_lower_def map_eq_four lower_char_eq_letter by simp

text \<open>
  C10. The fail-on-warn flag is true exactly when the configured value, stripped and
  lowercased, is the string \<^verbatim>\<open>true\<close>, that is when the stripped value is one of the
  spellings of \<^verbatim>\<open>true\<close> in upper and lower case. The configured value is the one of
  \<^verbatim>\<open>INPUT_FAIL_ON_WARN\<close> when that is set and not empty, whatever the hyphen-named
  variable holds; else the one of \<^verbatim>\<open>INPUT_FAIL-ON-WARN\<close> when that is set and not
  empty; else \<^verbatim>\<open>false\<close>, which gives a flag that is off.
\<close>

theorem fail_on_warn_flag:
  "(fail_on_warn_of env \<longleftrightarrow> py_lower (py_strip (fail_on_warn_raw env)) = ''true'')
   \<and> (fail_on_warn_of env \<longleftrightarrow>
        (\<exists>a b c d. py_strip (fail_on_warn_raw env) = [a, b, c, d]
           \<and> a \<in> {CHR ''t'', CHR ''T''} \<and> b \<in> {CHR ''r'', CHR ''R''}
           \<and> c \<in> {CHR ''u'', CHR ''U''} \<and> d \<in> {CHR ''e'', CHR ''E''}))
   \<and> (env ''INPUT_FAIL_ON_WARN'' = Some u \<and> u \<noteq> [] \<longrightarrow> fail_on_warn_raw env = u)
   \<and> ((env ''INPUT_FAIL_ON_WARN'' = None \<or> env ''INPUT_FAIL_ON_WARN'' = Some [])
        \<and> env ''INPUT_FAIL-ON-WARN'' = Some h \<and> h \<noteq> [] \<longrightarrow> fail_on_warn_raw env = h)
   \<and> ((env ''INPUT_FAIL_ON_WARN'' = None \<or> env ''INPUT_FAIL_ON_WARN'' = Some [])
        \<and> (env ''INPUT_FAIL-ON-WARN'' = None \<or> env ''INPUT_FAIL-ON-WARN'' = Some [])
      \<longrightarrow> fail_on_warn_raw env = ''false'' \<and> \<not> fail_on_warn_of env)"
proof (intro conjI)
  show "fail_on_warn_of env \<longleftrightarrow> py_lower (py_strip (fail_on_warn_raw env)) = ''true''"
    by (simp add: fail_on_warn_of_def)
  show "fail_on_warn_of env \<longleftrightarrow>
        (\<exists>a b c d. py_strip (fail_on_warn_raw env) = [a, b, c, d]
           \<and> a \<in> {CHR ''t'', CHR ''T''} \<and> b \<in> {CHR ''r'', CHR ''R''}
           \<and> c \<in> {CHR ''u'', CHR ''U''} \<and> d \<in> {CHR ''e'', CHR ''E''})"
    unfolding fail_on_warn_of_def by (rule py_lower_true_iff)
  show "env ''INPUT_FAIL_ON_WARN'' = Some u \<and> u \<noteq> [] \<longrightarrow> fail_on_warn_raw env = u"
    by (simp add: fail_on_warn_raw_def)
  show "(env ''INPUT_FAIL_ON_WARN'' = None \<or> env ''INPUT_FAIL_ON_WARN'' = Some [])
        \<and> env ''INPUT_FAIL-ON-WARN'' = Some h \<and> h \<noteq> [] \<longrightarrow> fail_on_warn_raw env = h"
    by (auto simp: fail_on_warn_raw_def)
  have f: "py_lower (py_strip ''false'') \<noteq> ''true''" by code_simp
  show "(env ''INPUT_FAIL_ON_WARN'' = None \<or> env ''INPUT_FAIL_ON_WARN'' = Some [])
        \<and> (env ''INPUT_FAIL-ON-WARN'' = None \<or> env ''INPUT_FAIL-ON-WARN'' = Some [])
      \<longrightarrow> fail_on_warn_raw env = ''false'' \<and> \<not> fail_on_warn_of env"
    using f by (auto simp: fail_on_warn_raw_def fail_on_warn_of_def)
qed

theorem fail_on_warn_flag_witness:
  "fail_on_warn_of [''INPUT_FAIL_ON_WARN'' \<mapsto> '' TRUE '', ''INPUT_FAIL-ON-WARN'' \<mapsto> ''false'']
   \<and> \<not> fail_on_warn_of [''INPUT_FAIL_ON_WARN'' \<mapsto> ''false'', ''INPUT_FAIL-ON-WARN'' \<mapsto> ''true'']
   \<and> fail_on_warn_of [''INPUT_FAIL_ON_WARN'' \<mapsto> [], ''INPUT_FAIL-ON-WARN'' \<mapsto> ''True'']
   \<and> \<not> fail_on_warn_of [''INPUT_FAIL_ON_WARN'' \<mapsto> ''1'']
   \<and> \<not> fail_on_warn_of [''INPUT_FAIL-ON-WARN'' \<mapsto> ''yes'']
   \<and> \<not> fail_on_warn_of Map.empty"
proof -
  have e: "py_lower (py_strip '' TRUE '') = ''true''" "py_lower (py_strip ''false'') \<noteq> ''true''"
    "py_lower (py_strip ''True'') = ''true''" "py_lower (py_strip ''1'') \<noteq> ''true''"
    "py_lower (py_strip ''yes'') \<noteq> ''true''"
    by code_simp+
  show ?thesis
    using e
      fail_on_warn_flag [of "[''INPUT_FAIL_ON_WARN'' \<mapsto> '' TRUE '', ''INPUT_FAIL-ON-WARN'' \<mapsto> ''false'']"
                            "'' TRUE ''"]
      fail_on_warn_flag [of "[''INPUT_FAIL_ON_WARN'' \<mapsto> ''false'', ''INPUT_FAIL-ON-WARN'' \<mapsto> ''true'']"
                            "''false''"]
      fail_on_warn_flag [of "[''INPUT_FAIL_ON_WARN'' \<mapsto> [], ''INPUT_FAIL-ON-WARN'' \<mapsto> ''True'']"
                            _ "''True''"]
      fail_on_warn_flag [of "[''INPUT_FAIL_ON_WARN'' \<mapsto> ''1'']" "''1''"]
      fail_on_warn_flag [of "[''INPUT_FAIL-ON-WARN'' \<mapsto> ''yes'']" _ "''yes''"]
      fail_on_warn_flag [of Map.empty]
    by simp
qed

end
